theory Spec2Isabelle
  imports Complex_Main "HOL-Library.Word"
begin

section \<open>JavaScript strings\<close>

text \<open>
  A JavaScript string is a sequence of UTF-16 code units, so a title is a list of 16-bit
  words. The typographic quote U+2019 is the single code unit 0x2019, which is different
  from the ASCII apostrophe 0x27.
\<close>

type_synonym jschar = "16 word"
type_synonym jsstring = "jschar list"

definition utf16 :: "string \<Rightarrow> jsstring" where
  "utf16 s = map of_char s"

definition APOSTROPHE :: jschar where "APOSTROPHE = 0x27"
definition PIPE :: jschar where "PIPE = 0x7C"
definition SLASH :: jschar where "SLASH = 0x2F"
definition QUESTION :: jschar where "QUESTION = 0x3F"
definition COLON :: jschar where "COLON = 0x3A"
definition SEMICOLON :: jschar where "SEMICOLON = 0x3B"
definition HYPHEN :: jschar where "HYPHEN = 0x2D"
definition CURLY_QUOTE :: jschar where "CURLY_QUOTE = 0x2019"

text \<open>
  \<open>s.replace(/c/g, rep)\<close> for a regular expression that is one literal character with the
  global flag: every occurrence of the character is replaced.
\<close>

definition replace_all :: "jschar \<Rightarrow> jsstring \<Rightarrow> jsstring \<Rightarrow> jsstring" where
  "replace_all c rep s = concat (map (\<lambda>x. if x = c then rep else [x]) s)"

text \<open>\<open>s.indexOf(c) > -1\<close> for a one-character needle.\<close>

definition contains :: "jschar \<Rightarrow> jsstring \<Rightarrow> bool" where
  "contains c s = (c \<in> set s)"

text \<open>
  \<open>s.split(c)\<close> for a one-character separator: the segments between all occurrences of the
  separator; a string without the separator gives the one-element array of itself.
\<close>

fun split :: "jschar \<Rightarrow> jsstring \<Rightarrow> jsstring list" where
  "split c [] = [[]]"
| "split c (x # xs) =
     (if x = c then [] # split c xs
      else (case split c xs of [] \<Rightarrow> [[x]] | seg # segs \<Rightarrow> (x # seg) # segs))"

text \<open>
  \<open>s.trim()\<close> removes the white space and line terminators of ECMAScript from both ends.
\<close>

definition is_whitespace :: "jschar \<Rightarrow> bool" where
  "is_whitespace c =
     (c = 0x09 \<or> c = 0x0A \<or> c = 0x0B \<or> c = 0x0C \<or> c = 0x0D \<or> c = 0x20 \<or> c = 0xA0
      \<or> c = 0x1680 \<or> (0x2000 \<le> c \<and> c \<le> 0x200A) \<or> c = 0x2028 \<or> c = 0x2029
      \<or> c = 0x202F \<or> c = 0x205F \<or> c = 0x3000 \<or> c = 0xFEFF)"

definition trim :: "jsstring \<Rightarrow> jsstring" where
  "trim s = rev (dropWhile is_whitespace (rev (dropWhile is_whitespace s)))"

section \<open>Title cleaning\<close>

text \<open>
  The table \<open>CHAR_REPLACES\<close> of index.ts, row by row. Rows 1 and 3 are the same
  expression \<open>/'/g\<close> in the source: both are the apostrophe 0x27.
\<close>

definition CHAR_REPLACES :: "(jschar \<times> jsstring) list" where
  "CHAR_REPLACES =
     [(APOSTROPHE, []),
      (PIPE, []),
      (APOSTROPHE, []),
      (SLASH, []),
      (QUESTION, []),
      (COLON, []),
      (SEMICOLON, [])]"

definition cleanFileName :: "jsstring \<Rightarrow> jsstring" where
  "cleanFileName fileName =
     fold (\<lambda>replacement fn. replace_all (fst replacement) (snd replacement) fn)
       CHAR_REPLACES fileName"

section \<open>Artist and title\<close>

text \<open>
  Lines 102 to 118 of \<open>_downloadByInfo\<close>: both variables start as \<open>Unknown\<close>; a title with
  a hyphen is split at every hyphen and the first two segments are trimmed; a title
  without one becomes the title as it is.
\<close>

definition UNKNOWN :: jsstring where
  "UNKNOWN = utf16 ''Unknown''"

definition artist_title :: "jsstring \<Rightarrow> jsstring \<times> jsstring" where
  "artist_title videoTitle =
     (if contains HYPHEN videoTitle then
        (let temp = split HYPHEN videoTitle in
         if length temp \<ge> 2 then (trim (temp ! 0), trim (temp ! 1))
         else (UNKNOWN, UNKNOWN))
      else (UNKNOWN, videoTitle))"

text \<open>
  The split as the specification words it, for comparison with the code: the first hyphen
  only, both halves trimmed, and the fallback when fewer than two trimmed halves are
  non-empty.
\<close>

definition spec_first_hyphen_split :: "jsstring \<Rightarrow> jsstring \<times> jsstring" where
  "spec_first_hyphen_split t =
     (trim (takeWhile (\<lambda>c. c \<noteq> HYPHEN) t), trim (tl (dropWhile (\<lambda>c. c \<noteq> HYPHEN) t)))"

definition nonempty_segments :: "jsstring \<Rightarrow> nat" where
  "nonempty_segments t = length (filter (\<lambda>s. trim s \<noteq> []) (split HYPHEN t))"

section \<open>JavaScript values and option objects\<close>

text \<open>
  A number is a double; the code only compares numbers, tests their truthiness and hands
  them on, so a number is \<open>NaN\<close> or a real. A value is one of the JavaScript values an
  option can hold.
\<close>

datatype jsnum = NaN | Fin real

datatype jsval =
    JUndefined
  | JNull
  | JBool bool
  | JNum jsnum
  | JStr jsstring
  | JArr "jsval list"
  | JObj "(string \<times> jsval) list"

datatype error = TypeError | ENOENT | EEXIST | ENOTDIR | External jsstring

definition truthy_num :: "jsnum \<Rightarrow> bool" where
  "truthy_num n = (n \<noteq> NaN \<and> n \<noteq> Fin 0)"

fun truthy :: "jsval \<Rightarrow> bool" where
  "truthy JUndefined = False"
| "truthy JNull = False"
| "truthy (JBool b) = b"
| "truthy (JNum n) = truthy_num n"
| "truthy (JStr s) = (s \<noteq> [])"
| "truthy (JArr xs) = True"
| "truthy (JObj kvs) = True"

definition nullish :: "jsval \<Rightarrow> bool" where
  "nullish v = (v = JUndefined \<or> v = JNull)"

text \<open>\<open>a ?? b\<close>\<close>

definition coalesce :: "jsval \<Rightarrow> jsval \<Rightarrow> jsval" where
  "coalesce a b = (if nullish a then b else a)"

text \<open>
  The fields of \<open>IOptions\<close>. An option object is a map from the fields it has as own
  properties to their values; a field can be present with the value \<open>undefined\<close>, which
  is not the same object as one where the field is absent.
\<close>

datatype okey =
    FileName
  | FfmpegPath
  | OutputPath
  | YoutubeVideoQuality
  | QueueParallelism
  | ProgressTimeout
  | AllowWebm
  | RequestOptions
  | OutputOptions

type_synonym IOptions = "okey \<rightharpoonup> jsval"

text \<open>Reading a property: an absent one reads as \<open>undefined\<close>.\<close>

definition get :: "IOptions \<Rightarrow> okey \<Rightarrow> jsval" where
  "get obj k = (case obj k of None \<Rightarrow> JUndefined | Some v \<Rightarrow> v)"

text \<open>
  \<open>Object.assign(target, ...sources)\<close>: every own property of each source, in order, is
  written to the target, whatever its value.
\<close>

definition object_assign :: "IOptions \<Rightarrow> IOptions list \<Rightarrow> IOptions" where
  "object_assign target sources = fold (\<lambda>source t. t ++ source) sources target"

text \<open>\<open>DEFAULT_OPTIONS\<close>; \<open>process.cwd()\<close> is the parameter.\<close>

definition DEFAULT_OPTIONS :: "jsstring \<Rightarrow> IOptions" where
  "DEFAULT_OPTIONS cwd =
     [OutputPath \<mapsto> JStr cwd,
      YoutubeVideoQuality \<mapsto> JStr (utf16 ''highestaudio''),
      QueueParallelism \<mapsto> JNum (Fin 1),
      ProgressTimeout \<mapsto> JNum (Fin 1000),
      AllowWebm \<mapsto> JBool False,
      RequestOptions \<mapsto> JObj [(''maxRedirects'', JNum (Fin 5))],
      OutputOptions \<mapsto> JArr []]"

text \<open>The caller's argument \<open>options\<close> may be left out: \<open>options ?? {}\<close>.\<close>

definition caller_fields :: "IOptions option \<Rightarrow> IOptions" where
  "caller_fields options = (case options of None \<Rightarrow> Map.empty | Some obj \<Rightarrow> obj)"

definition resolve_options :: "jsstring \<Rightarrow> IOptions option \<Rightarrow> IOptions" where
  "resolve_options cwd options =
     object_assign Map.empty [DEFAULT_OPTIONS cwd, caller_fields options]"

section \<open>The output directory\<close>

text \<open>
  The file system is a map from absolute paths (lists of names below the root) to what is
  there: a directory, a regular file, or a symbolic link whose target is missing. How the
  operating system turns a path string into such a path, following the symbolic links that
  lead somewhere, is the parameter \<open>resolve\<close>; a string that names no place, such as the
  empty string, resolves to nothing. Permissions are not modelled.
\<close>

datatype node = Dir | File | Dangling

type_synonym path = "jsstring list"
type_synonym filesystem = "path \<rightharpoonup> node"

text \<open>
  Looking a name up inside an entry: the entry must be a directory. A missing entry and a
  link to nothing give \<open>ENOENT\<close>, a regular file gives \<open>ENOTDIR\<close>.
\<close>

definition dir_error :: "node option \<Rightarrow> error option" where
  "dir_error entry =
     (case entry of
        None \<Rightarrow> Some ENOENT
      | Some Dir \<Rightarrow> None
      | Some File \<Rightarrow> Some ENOTDIR
      | Some Dangling \<Rightarrow> Some ENOENT)"

text \<open>
  Walking from the directory \<open>pre\<close> down through \<open>names\<close>, as the system does for the
  directory part of a path: the first entry on the way that is not a directory decides the
  error.
\<close>

fun walk :: "filesystem \<Rightarrow> path \<Rightarrow> jsstring list \<Rightarrow> error option" where
  "walk fs pre [] = dir_error (fs pre)"
| "walk fs pre (n # names) =
     (case dir_error (fs pre) of
        Some e \<Rightarrow> Some e
      | None \<Rightarrow> walk fs (pre @ [n]) names)"

text \<open>
  \<open>existsSync\<close> is true when the path leads to a directory or a file, and false for an
  argument that is not a string. \<open>mkdirSync\<close> without the \<open>recursive\<close> option raises a
  TypeError for an argument that is not a string, the error of the walk to the parent
  directory when that fails, and \<open>EEXIST\<close> when there is an entry of that name already;
  otherwise it creates the one directory.
\<close>

definition existsSync :: "(jsstring \<Rightarrow> path option) \<Rightarrow> filesystem \<Rightarrow> jsval \<Rightarrow> bool" where
  "existsSync resolve fs dir =
     (case dir of
        JStr s \<Rightarrow>
          (case resolve s of
             None \<Rightarrow> False
           | Some p \<Rightarrow> walk fs [] (butlast p) = None \<and> (fs p = Some Dir \<or> fs p = Some File))
      | _ \<Rightarrow> False)"

definition mkdirSync ::
  "(jsstring \<Rightarrow> path option) \<Rightarrow> filesystem \<Rightarrow> jsval \<Rightarrow> error + filesystem" where
  "mkdirSync resolve fs dir =
     (case dir of
        JStr s \<Rightarrow>
          (case resolve s of
             None \<Rightarrow> Inl ENOENT
           | Some p \<Rightarrow>
               (case walk fs [] (butlast p) of
                  Some e \<Rightarrow> Inl e
                | None \<Rightarrow> if fs p \<noteq> None then Inl EEXIST else Inr (fs(p \<mapsto> Dir))))
      | _ \<Rightarrow> Inl TypeError)"

text \<open>\<open>_ensureDir\<close>: \<open>!existsSync(dir) && mkdirSync(dir)\<close> on \<open>outputPath ?? ''\<close>.\<close>

definition ensureDir ::
  "(jsstring \<Rightarrow> path option) \<Rightarrow> filesystem \<Rightarrow> IOptions \<Rightarrow> error + filesystem" where
  "ensureDir resolve fs options =
     (let dir = coalesce (get options OutputPath) (JStr [])
      in if \<not> existsSync resolve fs dir then mkdirSync resolve fs dir else Inr fs)"

record downloader =
  videoId :: jsstring
  options :: IOptions

text \<open>The constructor: merge the options, then ensure the directory.\<close>

definition constructor ::
  "(jsstring \<Rightarrow> path option) \<Rightarrow> jsstring \<Rightarrow> filesystem \<Rightarrow> jsstring \<Rightarrow> IOptions option
     \<Rightarrow> error + (downloader \<times> filesystem)" where
  "constructor resolve cwd fs vid opts =
     (let this = \<lparr> videoId = vid, options = resolve_options cwd opts \<rparr>
      in case ensureDir resolve fs (options this) of
           Inl e \<Rightarrow> Inl e
         | Inr fs' \<Rightarrow> Inr (this, fs'))"

text \<open>A resolver for the examples: absolute paths, names separated by slashes.\<close>

definition simple_resolve :: "jsstring \<Rightarrow> path option" where
  "simple_resolve s = (if s = [] then None else Some (filter (\<lambda>n. n \<noteq> []) (split SLASH s)))"

definition BASE_URL :: jsstring where
  "BASE_URL = utf16 ''https://www.youtube.com/watch?v=''"

definition videoUrl :: "downloader \<Rightarrow> jsstring" where
  "videoUrl this = BASE_URL @ videoId this"

section \<open>The source descriptor\<close>

text \<open>
  What \<open>_downloadByInfo\<close> reads of \<open>ytdl.videoInfo\<close>. An optional field is an option;
  \<open>thumbnails\<close> may be missing, and so may the older \<open>thumbnail\<close> object that holds an
  array of its own.
\<close>

record thumb =
  url :: jsstring

record thumbnail_holder =
  holder_thumbnails :: "thumb list"

record videoDetails =
  title :: jsstring
  videoId :: jsstring
  thumbnails :: "thumb list option"
  thumbnail :: "thumbnail_holder option"

record videoFormat =
  container :: jsstring
  audioBitrate :: "jsnum option"

record videoInfo =
  videoDetails :: videoDetails
  formats :: "videoFormat list"

text \<open>
  Lines 104 to 108. An array is truthy also when it is empty; then its entry 0 is
  \<open>undefined\<close> and reading \<open>.url\<close> of it raises a TypeError. The other branch uses optional
  chaining and gives \<open>undefined\<close> (\<open>None\<close>) instead.
\<close>

definition thumbnail_of :: "videoDetails \<Rightarrow> error + jsstring option" where
  "thumbnail_of vd =
     (case thumbnails vd of
        Some ts \<Rightarrow> (case ts of [] \<Rightarrow> Inl TypeError | t # _ \<Rightarrow> Inr (Some (url t)))
      | None \<Rightarrow>
          (case videoDetails.thumbnail vd of
             None \<Rightarrow> Inr None
           | Some h \<Rightarrow>
               (case holder_thumbnails h of [] \<Rightarrow> Inr None | t # _ \<Rightarrow> Inr (Some (url t)))))"

section \<open>The output file\<close>

text \<open>
  The functions of other packages that the pipeline calls: \<open>path.join\<close>,
  \<open>sanitize-filename\<close>, and \<open>parseFloat(x.toFixed(2))\<close> on a number.
\<close>

record externals =
  path_join :: "jsstring \<Rightarrow> jsstring \<Rightarrow> jsstring"
  sanitizeFilename :: "jsstring \<Rightarrow> jsstring"
  toFixed2 :: "jsnum \<Rightarrow> jsnum"

definition MP3 :: jsstring where
  "MP3 = utf16 ''.mp3''"

text \<open>
  The template of line 122: \<open>sanitizeFilename(videoTitle) || info.videoDetails.videoId\<close>,
  then the extension. An empty string is falsy.
\<close>

definition default_name :: "externals \<Rightarrow> videoInfo \<Rightarrow> jsstring \<Rightarrow> jsstring" where
  "default_name ext info videoTitle =
     (let stem = (if sanitizeFilename ext videoTitle \<noteq> [] then sanitizeFilename ext videoTitle
                  else videoDetails.videoId (videoDetails info))
      in stem @ MP3)"

text \<open>The two arguments of \<open>path.join\<close> in lines 121 and 122.\<close>

definition output_dir :: "IOptions \<Rightarrow> jsval" where
  "output_dir opts = coalesce (get opts OutputPath) (JStr [])"

definition output_name :: "externals \<Rightarrow> IOptions \<Rightarrow> videoInfo \<Rightarrow> jsstring \<Rightarrow> jsval" where
  "output_name ext opts info videoTitle =
     coalesce (get opts FileName) (JStr (default_name ext info videoTitle))"

text \<open>\<open>path.join\<close> raises a TypeError for an argument that is not a string.\<close>

definition output_file ::
  "externals \<Rightarrow> IOptions \<Rightarrow> videoInfo \<Rightarrow> jsstring \<Rightarrow> error + jsstring" where
  "output_file ext opts info videoTitle =
     (case (output_dir opts, output_name ext opts info videoTitle) of
        (JStr d, JStr f) \<Rightarrow> Inr (path_join ext d f)
      | _ \<Rightarrow> Inl TypeError)"

section \<open>Streaming and encoding\<close>

text \<open>
  The sample of progress-stream; its field \<open>length\<close> is \<open>total_length\<close> here, and the
  field \<open>file\<close> of the result is \<open>result_file\<close>.
\<close>

record progress =
  percentage :: jsnum
  transferred :: jsnum
  total_length :: jsnum
  remaining :: jsnum
  eta :: jsnum
  runtime :: jsnum
  delta :: jsnum
  speed :: jsnum

record IProgress =
  videoId :: jsstring
  progress :: progress

record IResultStats =
  transferredBytes :: jsnum
  runtime :: jsnum
  averageSpeed :: jsnum

text \<open>
  \<open>stats\<close> is declared without a value (line 100), so the field of the result is
  \<open>undefined\<close> (\<open>None\<close>) until the progress listener assigns it. \<open>thumbnail\<close> is
  \<open>undefined\<close> when the descriptor has none.
\<close>

record IResult =
  videoId :: jsstring
  stats :: "IResultStats option"
  result_file :: jsstring
  youtubeUrl :: jsstring
  videoTitle :: jsstring
  artist :: jsstring
  title :: jsstring
  thumbnail :: "jsstring option"

definition DEFAULT_BITRATE :: jsnum where
  "DEFAULT_BITRATE = Fin 192"

definition exposes_bitrate :: "videoFormat \<Rightarrow> bool" where
  "exposes_bitrate format =
     (case audioBitrate format of None \<Rightarrow> False | Some b \<Rightarrow> truthy_num b)"

text \<open>
  Line 170: \<open>info.formats.find(f => !!f.audioBitrate)!.audioBitrate ?? DEFAULT_BITRATE\<close>.
  The \<open>!\<close> is erased by the compiler: when \<open>find\<close> returns \<open>undefined\<close>, reading
  \<open>.audioBitrate\<close> raises a TypeError before \<open>??\<close> is reached.
\<close>

definition resolve_audioBitrate :: "videoInfo \<Rightarrow> error + jsnum" where
  "resolve_audioBitrate info =
     (case List.find exposes_bitrate (formats info) of
        None \<Rightarrow> Inl TypeError
      | Some format \<Rightarrow>
          Inr (case audioBitrate format of None \<Rightarrow> DEFAULT_BITRATE | Some b \<Rightarrow> b))"

text \<open>Lines 156 to 167: the mandatory directives, then the caller's.\<close>

definition build_outputOptions :: "IOptions \<Rightarrow> jsstring \<Rightarrow> jsstring \<Rightarrow> jsval list" where
  "build_outputOptions opts title_tag artist_tag =
     (let outputOptions =
            [JStr (utf16 ''-id3v2_version''),
             JStr (utf16 ''4''),
             JStr (utf16 ''-metadata''),
             JStr (utf16 ''title='' @ title_tag),
             JStr (utf16 ''-metadata''),
             JStr (utf16 ''artist='' @ artist_tag)]
      in if truthy (get opts OutputOptions)
         then (case get opts OutputOptions of
                 JArr extra \<Rightarrow> outputOptions @ extra
               | v \<Rightarrow> outputOptions @ [v])
         else outputOptions)"

text \<open>What the encoder is started with (lines 173 to 192).\<close>

record encoder_job =
  job_audioBitrate :: jsnum
  job_audioCodec :: jsstring
  job_format :: jsstring
  job_outputOptions :: "jsval list"
  job_file :: jsstring

text \<open>
  The events that reach the listeners of \<open>_downloadByInfo\<close>: the source stream's \<open>error\<close>
  and \<open>response\<close>, the progress samples, and the encoder's \<open>error\<close> and \<open>end\<close>.
\<close>

datatype event =
    StreamError error
  | Response
  | Progress progress
  | FfmpegError error
  | FfmpegEnd

text \<open>
  How a run ends: the promise of \<open>download\<close> is resolved or rejected by the first
  callback; an exception raised inside a listener settles nothing; a run whose events stop
  before a callback stays pending.
\<close>

datatype outcome = Resolved IResult | Rejected error | Uncaught error | Pending

text \<open>What is fixed before the stream is opened (lines 101 to 123).\<close>

record prepared =
  p_videoTitle :: jsstring
  p_artist :: jsstring
  p_title :: jsstring
  p_thumbnail :: "jsstring option"
  p_fileName :: jsstring

text \<open>
  The variables the listeners share: \<open>stats\<close>, the progress events emitted to the
  subscriber so far, and the encoder once the \<open>response\<close> listener has started it.
\<close>

record run_state =
  st_stats :: "IResultStats option"
  st_emitted :: "IProgress list"
  st_encoder :: "encoder_job option"

definition initial_state :: run_state where
  "initial_state = \<lparr> st_stats = None, st_emitted = [], st_encoder = None \<rparr>"

text \<open>The progress listener, lines 145 to 154.\<close>

definition on_progress :: "externals \<Rightarrow> downloader \<Rightarrow> run_state \<Rightarrow> progress \<Rightarrow> run_state" where
  "on_progress ext this s p =
     s\<lparr> st_stats :=
          (if percentage p = Fin 100
           then Some \<lparr> transferredBytes = transferred p,
                       runtime = progress.runtime p,
                       averageSpeed = toFixed2 ext (speed p) \<rparr>
           else st_stats s),
        st_emitted := st_emitted s @ [\<lparr> IProgress.videoId = downloader.videoId this, progress = p \<rparr>] \<rparr>"

text \<open>The \<open>response\<close> listener, lines 138 to 193, up to the start of the encoder.\<close>

definition on_response ::
  "downloader \<Rightarrow> videoInfo \<Rightarrow> prepared \<Rightarrow> run_state \<Rightarrow> error + run_state" where
  "on_response this info prep s =
     (let outputOptions = build_outputOptions (options this) (p_title prep) (p_artist prep)
      in case resolve_audioBitrate info of
           Inl e \<Rightarrow> Inl e
         | Inr b \<Rightarrow>
             Inr (s\<lparr> st_encoder :=
                       Some \<lparr> job_audioBitrate = b,
                              job_audioCodec = utf16 ''libmp3lame'',
                              job_format = utf16 ''mp3'',
                              job_outputOptions = outputOptions,
                              job_file = p_fileName prep \<rparr> \<rparr>))"

text \<open>The \<open>end\<close> listener, lines 179 to 191.\<close>

definition resultObj :: "downloader \<Rightarrow> prepared \<Rightarrow> run_state \<Rightarrow> IResult" where
  "resultObj this prep s =
     \<lparr> IResult.videoId = downloader.videoId this,
       stats = st_stats s,
       result_file = p_fileName prep,
       youtubeUrl = videoUrl this,
       videoTitle = p_videoTitle prep,
       artist = p_artist prep,
       title = p_title prep,
       thumbnail = p_thumbnail prep \<rparr>"

text \<open>
  An exception raised inside the \<open>response\<close> listener settles nothing and removes no
  listener: the events that follow are still handled, and a stream error among them
  rejects the promise (line 136). When nothing settles the promise afterwards, what is
  left of the run is the uncaught exception.
\<close>

definition after_throw :: "error \<Rightarrow> run_state \<times> outcome \<Rightarrow> run_state \<times> outcome" where
  "after_throw e res =
     (fst res,
      case snd res of
        Pending \<Rightarrow> Uncaught e
      | Uncaught _ \<Rightarrow> Uncaught e
      | Resolved r \<Rightarrow> Resolved r
      | Rejected e' \<Rightarrow> Rejected e')"

text \<open>
  One run: the events are handled in order until a callback settles the promise. The
  progress listener and the encoder's listeners exist only once the \<open>response\<close> listener
  has started the encoder.
\<close>

fun run ::
  "externals \<Rightarrow> downloader \<Rightarrow> videoInfo \<Rightarrow> prepared \<Rightarrow> run_state \<Rightarrow> event list
     \<Rightarrow> run_state \<times> outcome" where
  "run ext this info prep s [] = (s, Pending)"
| "run ext this info prep s (StreamError e # evs) = (s, Rejected e)"
| "run ext this info prep s (Response # evs) =
     (case on_response this info prep s of
        Inl e \<Rightarrow> after_throw e (run ext this info prep s evs)
      | Inr s' \<Rightarrow> run ext this info prep s' evs)"
| "run ext this info prep s (Progress p # evs) =
     (case st_encoder s of
        None \<Rightarrow> run ext this info prep s evs
      | Some _ \<Rightarrow> run ext this info prep (on_progress ext this s p) evs)"
| "run ext this info prep s (FfmpegError e # evs) =
     (case st_encoder s of
        None \<Rightarrow> run ext this info prep s evs
      | Some _ \<Rightarrow> (s, Rejected e))"
| "run ext this info prep s (FfmpegEnd # evs) =
     (case st_encoder s of
        None \<Rightarrow> run ext this info prep s evs
      | Some _ \<Rightarrow> (s, Resolved (resultObj this prep s)))"

text \<open>
  \<open>_downloadByInfo\<close> inside the promise of \<open>download\<close>: an exception raised before the
  stream is opened rejects the promise.
\<close>

definition downloadByInfo ::
  "externals \<Rightarrow> downloader \<Rightarrow> videoInfo \<Rightarrow> event list \<Rightarrow> run_state \<times> outcome" where
  "downloadByInfo ext this info evs =
     (let vt = cleanFileName (videoDetails.title (videoDetails info))
      in case thumbnail_of (videoDetails info) of
           Inl e \<Rightarrow> (initial_state, Rejected e)
         | Inr th \<Rightarrow>
             (case output_file ext (options this) info vt of
                Inl e \<Rightarrow> (initial_state, Rejected e)
              | Inr fileName \<Rightarrow>
                  run ext this info
                    \<lparr> p_videoTitle = vt,
                      p_artist = fst (artist_title vt),
                      p_title = snd (artist_title vt),
                      p_thumbnail = th,
                      p_fileName = fileName \<rparr>
                    initial_state evs))"

text \<open>
  For the statement about the statistics: the samples that the progress stream delivers
  to its listener in a run, read off the events. They are the \<open>Progress\<close> events after
  the first \<open>response\<close> and before the event that settles the promise. The statistics
  the specification expects are those of the last delivered sample with percentage 100,
  and none when there is no such sample.
\<close>

fun samples_observed :: "bool \<Rightarrow> event list \<Rightarrow> progress list" where
  "samples_observed started [] = []"
| "samples_observed started (StreamError e # evs) = []"
| "samples_observed started (Response # evs) = samples_observed True evs"
| "samples_observed started (Progress p # evs) =
     (if started then p # samples_observed started evs else samples_observed started evs)"
| "samples_observed started (FfmpegError e # evs) =
     (if started then [] else samples_observed started evs)"
| "samples_observed started (FfmpegEnd # evs) =
     (if started then [] else samples_observed started evs)"

definition expected_stats :: "externals \<Rightarrow> progress list \<Rightarrow> IResultStats option" where
  "expected_stats ext ps =
     (case filter (\<lambda>p. percentage p = Fin 100) ps of
        [] \<Rightarrow> None
      | q # qs \<Rightarrow>
          Some \<lparr> transferredBytes = transferred (last (q # qs)),
                 runtime = progress.runtime (last (q # qs)),
                 averageSpeed = toFixed2 ext (speed (last (q # qs))) \<rparr>)"

text \<open>Example collaborators for the concrete runs below.\<close>

definition example_externals :: externals where
  "example_externals =
     \<lparr> path_join = (\<lambda>d f. if d = [] then f else d @ [SLASH] @ f),
       sanitizeFilename = filter (\<lambda>c. c \<noteq> SLASH),
       toFixed2 = (\<lambda>n. n) \<rparr>"

definition example_info :: videoInfo where
  "example_info =
     \<lparr> videoDetails =
         \<lparr> videoDetails.title = utf16 ''Artist X - Cool Song'',
           videoDetails.videoId = utf16 ''abc123'',
           thumbnails = Some [\<lparr> url = utf16 ''https://i.ytimg.com/vi/abc123/default.jpg'' \<rparr>],
           videoDetails.thumbnail = None \<rparr>,
       formats =
         [\<lparr> container = utf16 ''mp4'', audioBitrate = None \<rparr>,
          \<lparr> container = utf16 ''mp4'', audioBitrate = Some (Fin 128) \<rparr>,
          \<lparr> container = utf16 ''webm'', audioBitrate = Some (Fin 160) \<rparr>] \<rparr>"

text \<open>The same descriptor with one format only, a video track without audio.\<close>

definition silent_info :: videoInfo where
  "silent_info =
     \<lparr> videoDetails = videoDetails example_info,
       formats = [\<lparr> container = utf16 ''mp4'', audioBitrate = None \<rparr>] \<rparr>"

definition example_downloader :: downloader where
  "example_downloader =
     \<lparr> downloader.videoId = utf16 ''abc123'',
       options = resolve_options (utf16 ''/music'') None \<rparr>"

definition sample :: "real \<Rightarrow> real \<Rightarrow> progress" where
  "sample pct bytes =
     \<lparr> percentage = Fin pct, transferred = Fin bytes, total_length = Fin 1000000,
       remaining = Fin (1000000 - bytes), eta = Fin 0, progress.runtime = Fin 12,
       delta = Fin 0, speed = Fin 83333 \<rparr>"

definition example_events :: "event list" where
  "example_events =
     [Response, Progress (sample 40 400000), Progress (sample 100 1000000), FfmpegEnd]"

text \<open>A run whose stream ends without a sample at 100.\<close>

definition short_events :: "event list" where
  "short_events = [Response, Progress (sample 40 400000), FfmpegEnd]"

definition example_result :: IResult where
  "example_result =
     \<lparr> IResult.videoId = utf16 ''abc123'',
       stats = Some \<lparr> transferredBytes = Fin 1000000, runtime = Fin 12,
                      averageSpeed = Fin 83333 \<rparr>,
       result_file = utf16 ''/music/Artist X - Cool Song.mp3'',
       youtubeUrl = utf16 ''https://www.youtube.com/watch?v=abc123'',
       videoTitle = utf16 ''Artist X - Cool Song'',
       artist = utf16 ''Artist X'',
       title = utf16 ''Cool Song'',
       thumbnail = Some (utf16 ''https://i.ytimg.com/vi/abc123/default.jpg'') \<rparr>"

text \<open>The same descriptor with a title that cleaning empties.\<close>

definition untitled_info :: videoInfo where
  "untitled_info =
     example_info\<lparr> videoDetails :=
       (videoDetails example_info)\<lparr> videoDetails.title := utf16 ''?/:'' \<rparr> \<rparr>"

text \<open>A file system with the root, the directory \<open>/music\<close> and the file \<open>/notes\<close>.\<close>

definition example_fs :: filesystem where
  "example_fs = [[] \<mapsto> Dir, [utf16 ''music''] \<mapsto> Dir, [utf16 ''notes''] \<mapsto> File]"

section \<open>Properties\<close>

lemmas string_consts =
  utf16_def APOSTROPHE_def PIPE_def SLASH_def QUESTION_def COLON_def SEMICOLON_def HYPHEN_def
  CURLY_QUOTE_def MP3_def UNKNOWN_def BASE_URL_def

lemmas pipeline_defs =
  downloadByInfo_def cleanFileName_def CHAR_REPLACES_def replace_all_def artist_title_def
  contains_def trim_def is_whitespace_def thumbnail_of_def output_file_def output_dir_def
  output_name_def default_name_def coalesce_def nullish_def get_def resolve_options_def
  object_assign_def caller_fields_def DEFAULT_OPTIONS_def initial_state_def on_response_def
  on_progress_def resolve_audioBitrate_def exposes_bitrate_def truthy_num_def resultObj_def
  videoUrl_def build_outputOptions_def DEFAULT_BITRATE_def after_throw_def

lemmas example_defs =
  example_info_def silent_info_def example_downloader_def example_events_def short_events_def
  example_result_def example_externals_def sample_def untitled_info_def

subsection \<open>Facts about the string operations\<close>

lemma replace_all_empty: "replace_all c [] s = filter (\<lambda>x. x \<noteq> c) s"
  by (induction s) (simp_all add: replace_all_def)

lemma cleanFileName_filter:
  "cleanFileName s =
     filter (\<lambda>x. x \<notin> {APOSTROPHE, PIPE, SLASH, QUESTION, COLON, SEMICOLON}) s"
  by (simp add: cleanFileName_def CHAR_REPLACES_def replace_all_empty conj_commute conj_left_commute
      cong: filter_cong)

lemma split_not_Nil: "split c s \<noteq> []"
  by (induction s) (auto split: list.splits)

lemma split_hd: "hd (split c s) = takeWhile (\<lambda>x. x \<noteq> c) s"
  by (induction s) (auto split: list.splits simp: split_not_Nil)

lemma split_tl:
  "c \<in> set s \<Longrightarrow> tl (split c s) = split c (tl (dropWhile (\<lambda>x. x \<noteq> c) s))"
  by (induction s) (auto split: list.splits simp: split_not_Nil)

lemma split_length: "length (split c s) = Suc (count_list s c)"
  by (induction s) (auto split: list.splits simp: split_not_Nil)

lemma split_segments_free: "seg \<in> set (split c s) \<Longrightarrow> c \<notin> set seg"
  by (induction s arbitrary: seg) (auto split: list.splits if_splits simp: split_not_Nil)

lemma split_second:
  assumes "c \<in> set s"
  shows "2 \<le> length (split c s)"
    and "split c s ! 0 = takeWhile (\<lambda>x. x \<noteq> c) s"
    and "split c s ! 1 = takeWhile (\<lambda>x. x \<noteq> c) (tl (dropWhile (\<lambda>x. x \<noteq> c) s))"
proof -
  have "count_list s c \<noteq> 0"
    using assms by (simp add: count_list_0_iff)
  then show "2 \<le> length (split c s)"
    unfolding split_length by arith
  show "split c s ! 0 = takeWhile (\<lambda>x. x \<noteq> c) s"
    using split_hd [of c s] split_not_Nil [of c s] by (simp add: hd_conv_nth)
  have "split c s ! 1 = hd (tl (split c s))"
    using \<open>2 \<le> length (split c s)\<close>
    by (cases "split c s"; cases "tl (split c s)") auto
  then show "split c s ! 1 = takeWhile (\<lambda>x. x \<noteq> c) (tl (dropWhile (\<lambda>x. x \<noteq> c) s))"
    by (simp add: split_tl [OF assms] split_hd)
qed

lemma two_heads: "2 \<le> length xs \<Longrightarrow> xs = xs ! 0 # xs ! 1 # drop 2 xs"
  by (cases xs; cases "tl xs") auto

lemma takeWhile_free: "c \<notin> set xs \<Longrightarrow> takeWhile (\<lambda>x. x \<noteq> c) xs = xs"
  by (induction xs) auto

lemma one_hyphen_rest:
  "count_list s c = 1 \<Longrightarrow> c \<notin> set (tl (dropWhile (\<lambda>x. x \<noteq> c) s))"
  by (induction s) (auto split: if_splits simp: count_list_0_iff)

lemma trim_subset: "set (trim s) \<subseteq> set s"
proof
  fix x assume "x \<in> set (trim s)"
  then have "x \<in> set (dropWhile is_whitespace (rev (dropWhile is_whitespace s)))"
    by (simp add: trim_def)
  then have "x \<in> set (rev (dropWhile is_whitespace s))"
    by (rule set_dropWhileD)
  then have "x \<in> set (dropWhile is_whitespace s)"
    by simp
  then show "x \<in> set s"
    by (rule set_dropWhileD)
qed

lemma artist_title_segments:
  assumes "contains HYPHEN t"
  shows "2 \<le> length (split HYPHEN t)"
    and "artist_title t = (trim (split HYPHEN t ! 0), trim (split HYPHEN t ! 1))"
proof -
  have h: "HYPHEN \<in> set t" using assms by (simp add: contains_def)
  show len: "2 \<le> length (split HYPHEN t)" by (rule split_second(1) [OF h])
  show "artist_title t = (trim (split HYPHEN t ! 0), trim (split HYPHEN t ! 1))"
    unfolding artist_title_def Let_def using assms len by simp
qed

lemma artist_title_hyphen:
  assumes "contains HYPHEN t"
  shows "artist_title t =
           (trim (takeWhile (\<lambda>c. c \<noteq> HYPHEN) t),
            trim (takeWhile (\<lambda>c. c \<noteq> HYPHEN) (tl (dropWhile (\<lambda>c. c \<noteq> HYPHEN) t))))"
proof -
  have h: "HYPHEN \<in> set t" using assms by (simp add: contains_def)
  show ?thesis
    using artist_title_segments(2) [OF assms]
    unfolding split_second(2) [OF h] split_second(3) [OF h] .
qed

lemma artist_title_plain: "\<not> contains HYPHEN t \<Longrightarrow> artist_title t = (UNKNOWN, t)"
  by (simp add: artist_title_def)

subsection \<open>C1: which hyphens the split uses\<close>

text \<open>
  C1, as the code has it. For every cleaned title that contains a hyphen, the artist is the
  trimmed text before the first hyphen and the title is the trimmed text between the first
  hyphen and the next one (or the end of the string when there is no other hyphen); what
  follows a second hyphen is in neither. For a title with exactly one hyphen this is the
  split at that hyphen with both halves trimmed.
\<close>

theorem artist_title_first_two_segments:
  assumes "contains HYPHEN t"
  shows "artist_title t =
           (trim (takeWhile (\<lambda>c. c \<noteq> HYPHEN) t),
            trim (takeWhile (\<lambda>c. c \<noteq> HYPHEN) (tl (dropWhile (\<lambda>c. c \<noteq> HYPHEN) t))))
         \<and> (count_list t HYPHEN = 1 \<longrightarrow> artist_title t = spec_first_hyphen_split t)"
proof (intro conjI impI)
  show "artist_title t =
           (trim (takeWhile (\<lambda>c. c \<noteq> HYPHEN) t),
            trim (takeWhile (\<lambda>c. c \<noteq> HYPHEN) (tl (dropWhile (\<lambda>c. c \<noteq> HYPHEN) t))))"
    using assms by (rule artist_title_hyphen)
next
  assume "count_list t HYPHEN = 1"
  then have "HYPHEN \<notin> set (tl (dropWhile (\<lambda>x. x \<noteq> HYPHEN) t))"
    by (rule one_hyphen_rest)
  then have eq: "takeWhile (\<lambda>c. c \<noteq> HYPHEN) (tl (dropWhile (\<lambda>c. c \<noteq> HYPHEN) t))
             = tl (dropWhile (\<lambda>c. c \<noteq> HYPHEN) t)"
    by (rule takeWhile_free)
  show "artist_title t = spec_first_hyphen_split t"
    by (simp only: artist_title_hyphen [OF assms] spec_first_hyphen_split_def eq)
qed

text \<open>The theorem at the title \<open>Artist X - Cool Song\<close>, which has one hyphen.\<close>

theorem artist_title_first_two_segments_witness:
  "contains HYPHEN (utf16 ''Artist X - Cool Song'')
   \<and> count_list (utf16 ''Artist X - Cool Song'') HYPHEN = 1
   \<and> artist_title (utf16 ''Artist X - Cool Song'') = (utf16 ''Artist X'', utf16 ''Cool Song'')
   \<and> spec_first_hyphen_split (utf16 ''Artist X - Cool Song'')
       = (utf16 ''Artist X'', utf16 ''Cool Song'')"
proof -
  have h: "contains HYPHEN (utf16 ''Artist X - Cool Song'')"
    by (simp add: contains_def string_consts)
  have c: "count_list (utf16 ''Artist X - Cool Song'') HYPHEN = 1"
    by (simp add: string_consts)
  note split = artist_title_first_two_segments [OF h]
  have a: "artist_title (utf16 ''Artist X - Cool Song'') = (utf16 ''Artist X'', utf16 ''Cool Song'')"
    using split by (simp add: string_consts trim_def is_whitespace_def)
  from split c have "artist_title (utf16 ''Artist X - Cool Song'')
                     = spec_first_hyphen_split (utf16 ''Artist X - Cool Song'')"
    by blast
  with a have "spec_first_hyphen_split (utf16 ''Artist X - Cool Song'')
               = (utf16 ''Artist X'', utf16 ''Cool Song'')"
    by simp
  with h c a show ?thesis
    by blast
qed

text \<open>
  With two hyphens the code and the split at the first hyphen only differ: the title is
  \<open>B\<close>, not \<open>B - C\<close>.
\<close>

theorem artist_title_later_hyphens_dropped:
  "contains HYPHEN (utf16 ''A - B - C'')
   \<and> artist_title (utf16 ''A - B - C'') = (utf16 ''A'', utf16 ''B'')
   \<and> spec_first_hyphen_split (utf16 ''A - B - C'') = (utf16 ''A'', utf16 ''B - C'')
   \<and> artist_title (utf16 ''A - B - C'') \<noteq> spec_first_hyphen_split (utf16 ''A - B - C'')"
  by (simp add: artist_title_def spec_first_hyphen_split_def contains_def trim_def
      is_whitespace_def string_consts)

subsection \<open>C2: empty segments\<close>

text \<open>
  C2, as the code has it. For every cleaned title that contains a hyphen, also one whose
  split has fewer than two segments that are non-empty after trimming, the split has at
  least two segments and no fallback is taken: the artist is the trimmed first segment and
  the title the trimmed second segment. So for such a title one of the two is the empty
  string, and the pair is never \<open>Unknown\<close> with the whole cleaned title.
\<close>

theorem artist_title_no_fallback:
  assumes "contains HYPHEN t" and "nonempty_segments t < 2"
  shows "2 \<le> length (split HYPHEN t)
         \<and> artist_title t = (trim (split HYPHEN t ! 0), trim (split HYPHEN t ! 1))
         \<and> (fst (artist_title t) = [] \<or> snd (artist_title t) = [])
         \<and> artist_title t \<noteq> (UNKNOWN, t)"
proof -
  have h: "HYPHEN \<in> set t" using assms(1) by (simp add: contains_def)
  have len: "2 \<le> length (split HYPHEN t)" by (rule artist_title_segments(1) [OF assms(1)])
  have at: "artist_title t = (trim (split HYPHEN t ! 0), trim (split HYPHEN t ! 1))"
    by (rule artist_title_segments(2) [OF assms(1)])
  obtain rest where xs: "split HYPHEN t = split HYPHEN t ! 0 # split HYPHEN t ! 1 # rest"
    using two_heads [OF len] by blast
  have "length (filter (\<lambda>s. trim s \<noteq> []) (split HYPHEN t ! 0 # split HYPHEN t ! 1 # rest)) < 2"
    using assms(2) xs by (simp add: nonempty_segments_def)
  then have empty: "trim (split HYPHEN t ! 0) = [] \<or> trim (split HYPHEN t ! 1) = []"
    by (auto split: if_splits)
  have "split HYPHEN t ! 1 \<in> set (split HYPHEN t)"
    using len by simp
  then have "HYPHEN \<notin> set (split HYPHEN t ! 1)"
    by (rule split_segments_free)
  then have "HYPHEN \<notin> set (trim (split HYPHEN t ! 1))"
    using trim_subset by blast
  then have "trim (split HYPHEN t ! 1) \<noteq> t"
    using h by auto
  then show ?thesis
    using len at empty by simp
qed

text \<open>The theorem at a title that ends with its hyphen.\<close>

theorem artist_title_no_fallback_witness:
  "contains HYPHEN (utf16 ''Intro -'')
   \<and> nonempty_segments (utf16 ''Intro -'') < 2
   \<and> artist_title (utf16 ''Intro -'') = (utf16 ''Intro'', [])
   \<and> artist_title (utf16 ''Intro -'') \<noteq> (UNKNOWN, utf16 ''Intro -'')"
proof -
  have h: "contains HYPHEN (utf16 ''Intro -'')"
    by (simp add: contains_def string_consts)
  have n: "nonempty_segments (utf16 ''Intro -'') < 2"
    by (simp add: nonempty_segments_def trim_def is_whitespace_def string_consts)
  from artist_title_no_fallback [OF h n] h n show ?thesis
    by (simp add: trim_def is_whitespace_def string_consts)
qed

text \<open>
  A title that begins with a hyphen has one non-empty segment; the artist is the empty
  string and the title is \<open>abc\<close>, not \<open>Unknown\<close> and \<open>-abc\<close>.
\<close>

theorem artist_title_leading_hyphen:
  "contains HYPHEN (utf16 ''-abc'')
   \<and> nonempty_segments (utf16 ''-abc'') < 2
   \<and> artist_title (utf16 ''-abc'') = ([], utf16 ''abc'')
   \<and> artist_title (utf16 ''-abc'') \<noteq> (UNKNOWN, utf16 ''-abc'')"
  by (simp add: artist_title_def nonempty_segments_def contains_def trim_def
      is_whitespace_def string_consts)

subsection \<open>C3: the characters that cleaning removes\<close>

text \<open>
  C3. Cleaning is meant to remove apostrophes, typographic quotes, pipes, slashes,
  question marks, colons and semicolons. Row 3 of the table repeats row 1, so the code
  removes six characters and leaves the typographic quote U+2019 in the title: here the
  cleaned title is the input unchanged.
\<close>

theorem cleanFileName_keeps_curly_quote:
  "cleanFileName (utf16 ''Don'' @ [CURLY_QUOTE] @ utf16 ''t Stop: Me'')
     = utf16 ''Don'' @ [CURLY_QUOTE] @ utf16 ''t Stop Me''"
  by (simp add: cleanFileName_def CHAR_REPLACES_def replace_all_def string_consts)

subsection \<open>Facts about a run\<close>

lemma bitrate_first:
  assumes "List.find exposes_bitrate (formats info) = Some format"
  shows "resolve_audioBitrate info = Inr (the (audioBitrate format))"
    and "exposes_bitrate format"
proof -
  show e: "exposes_bitrate format"
    using assms by (auto simp: find_Some_iff)
  then have "audioBitrate format \<noteq> None"
    by (cases "audioBitrate format") (auto simp: exposes_bitrate_def)
  with assms show "resolve_audioBitrate info = Inr (the (audioBitrate format))"
    by (auto simp: resolve_audioBitrate_def)
qed

lemma bitrate_missing:
  "\<forall>format\<in>set (formats info). \<not> exposes_bitrate format \<Longrightarrow>
   resolve_audioBitrate info = Inl TypeError"
  by (auto simp: resolve_audioBitrate_def find_None_iff split: option.splits)

lemma on_response_bitrate:
  "on_response this info prep s = Inr s' \<Longrightarrow>
   \<exists>job. st_encoder s' = Some job \<and> resolve_audioBitrate info = Inr (job_audioBitrate job)"
  by (auto simp: on_response_def split: sum.splits)

lemma expected_stats_Cons:
  "expected_stats ext (p # ps) =
     (case expected_stats ext ps of
        Some x \<Rightarrow> Some x
      | None \<Rightarrow>
          if percentage p = Fin 100
          then Some \<lparr> transferredBytes = transferred p, runtime = progress.runtime p,
                      averageSpeed = toFixed2 ext (speed p) \<rparr>
          else None)"
  by (cases "filter (\<lambda>p. percentage p = Fin 100) ps") (simp_all add: expected_stats_def)

lemma expected_stats_present:
  "expected_stats ext ps \<noteq> None \<longleftrightarrow> (\<exists>p\<in>set ps. percentage p = Fin 100)"
proof -
  have "expected_stats ext ps \<noteq> None \<longleftrightarrow> filter (\<lambda>p. percentage p = Fin 100) ps \<noteq> []"
    by (cases "filter (\<lambda>p. percentage p = Fin 100) ps") (simp_all add: expected_stats_def)
  then show ?thesis
    by (simp add: filter_empty_conv)
qed

lemma samples_observed_events:
  "p \<in> set (samples_observed started evs) \<Longrightarrow> Progress p \<in> set evs"
  by (induction started evs rule: samples_observed.induct) (auto split: if_splits)

lemma on_response_ok:
  "resolve_audioBitrate info = Inr b \<Longrightarrow>
   \<exists>s2. on_response this info prep s = Inr s2 \<and> st_encoder s2 \<noteq> None
        \<and> st_stats s2 = st_stats s \<and> st_emitted s2 = st_emitted s"
  by (simp add: on_response_def)

lemma run_observed:
  "resolve_audioBitrate info = Inr b \<Longrightarrow> run ext this info prep s evs = (s', out) \<Longrightarrow>
   st_emitted s' = st_emitted s
       @ map (\<lambda>p. \<lparr> IProgress.videoId = downloader.videoId this, progress = p \<rparr>)
           (samples_observed (st_encoder s \<noteq> None) evs)
   \<and> st_stats s' = (case expected_stats ext (samples_observed (st_encoder s \<noteq> None) evs) of
                     None \<Rightarrow> st_stats s | Some x \<Rightarrow> Some x)
   \<and> (\<forall>r. out = Resolved r \<longrightarrow> r = resultObj this prep s')"
proof (induction ext this info prep s evs rule: run.induct)
  case (1 ext this info prep s)
  then show ?case by (simp add: expected_stats_def)
next
  case (2 ext this info prep s e evs)
  then show ?case by (auto simp: expected_stats_def)
next
  case (3 ext this info prep s evs)
  from on_response_ok [OF 3(3)] obtain s2 where
    r: "on_response this info prep s = Inr s2" and enc: "st_encoder s2 \<noteq> None"
    and st: "st_stats s2 = st_stats s" and em: "st_emitted s2 = st_emitted s"
    by blast
  from 3(4) r have "run ext this info prep s2 evs = (s', out)"
    by simp
  from 3(2) [OF r 3(3) this] enc st em show ?case
    by (auto split: option.splits)
next
  case (4 ext this info prep s p evs)
  show ?case
  proof (cases "st_encoder s")
    case None
    with 4(4) have "run ext this info prep s evs = (s', out)" by simp
    from 4(1) [OF None 4(3) this] None show ?thesis by simp
  next
    case (Some job)
    let ?s2 = "on_progress ext this s p"
    have enc: "st_encoder ?s2 = Some job"
      using Some by (simp add: on_progress_def)
    from 4(4) Some have "run ext this info prep ?s2 evs = (s', out)" by simp
    from 4(2) [OF Some 4(3) this] enc Some show ?thesis
      by (auto simp: on_progress_def expected_stats_Cons split: option.splits)
  qed
next
  case (5 ext this info prep s e evs)
  then show ?case by (cases "st_encoder s") (auto simp: expected_stats_def)
next
  case (6 ext this info prep s evs)
  then show ?case by (cases "st_encoder s") (auto simp: expected_stats_def)
qed

lemma after_throw_Resolved:
  "snd (after_throw e res) = Resolved r \<longleftrightarrow> snd res = Resolved r"
  by (cases "snd res") (simp_all add: after_throw_def)

lemma run_never_resolves:
  "resolve_audioBitrate info = Inl e \<Longrightarrow> st_encoder s = None \<Longrightarrow>
   snd (run ext this info prep s evs) \<noteq> Resolved r"
proof (induction ext this info prep s evs rule: run.induct)
  case (3 ext this info prep s evs)
  have "on_response this info prep s = Inl e"
    using 3(3) by (simp add: on_response_def)
  with 3(1) [OF this 3(3,4)] show ?case
    by (simp add: after_throw_Resolved)
qed simp_all

text \<open>What a resolved run returns is built from the derived fields, as lines 180 to 189 do.\<close>

lemma downloadByInfo_resolved:
  assumes "downloadByInfo ext this info evs = (s, Resolved r)"
  shows "stats r = st_stats s"
    and "videoTitle r = cleanFileName (videoDetails.title (videoDetails info))"
    and "(artist r, IResult.title r) = artist_title (videoTitle r)"
    and "thumbnail_of (videoDetails info) = Inr (IResult.thumbnail r)"
    and "output_file ext (options this) info (videoTitle r) = Inr (result_file r)"
    and "st_stats s = expected_stats ext (samples_observed False evs)"
    and "st_emitted s = map (\<lambda>p. \<lparr> IProgress.videoId = downloader.videoId this, progress = p \<rparr>)
                          (samples_observed False evs)"
proof -
  obtain th fileName where th: "thumbnail_of (videoDetails info) = Inr th"
    and fn: "output_file ext (options this) info
               (cleanFileName (videoDetails.title (videoDetails info))) = Inr fileName"
    and run: "run ext this info
                \<lparr> p_videoTitle = cleanFileName (videoDetails.title (videoDetails info)),
                  p_artist = fst (artist_title (cleanFileName (videoDetails.title (videoDetails info)))),
                  p_title = snd (artist_title (cleanFileName (videoDetails.title (videoDetails info)))),
                  p_thumbnail = th,
                  p_fileName = fileName \<rparr>
                initial_state evs = (s, Resolved r)"
    using assms by (auto simp: downloadByInfo_def Let_def split: sum.splits)
  have enc0: "st_encoder initial_state = None"
    by (simp add: initial_state_def)
  obtain b where ok: "resolve_audioBitrate info = Inr b"
  proof (cases "resolve_audioBitrate info")
    case (Inl e)
    from run_never_resolves [OF Inl enc0] run show ?thesis
      by (metis snd_conv)
  next
    case (Inr b)
    then show ?thesis by (rule that)
  qed
  note rs = run_observed [OF ok run]
  from rs have r: "r = resultObj this
       \<lparr> p_videoTitle = cleanFileName (videoDetails.title (videoDetails info)),
         p_artist = fst (artist_title (cleanFileName (videoDetails.title (videoDetails info)))),
         p_title = snd (artist_title (cleanFileName (videoDetails.title (videoDetails info)))),
         p_thumbnail = th,
         p_fileName = fileName \<rparr> s"
    by blast
  show "stats r = st_stats s"
    unfolding r by (simp add: resultObj_def)
  show vt: "videoTitle r = cleanFileName (videoDetails.title (videoDetails info))"
    unfolding r by (simp add: resultObj_def)
  show "(artist r, IResult.title r) = artist_title (videoTitle r)"
    unfolding r by (simp add: resultObj_def)
  show "thumbnail_of (videoDetails info) = Inr (IResult.thumbnail r)"
    unfolding r using th by (simp add: resultObj_def)
  have "result_file r = fileName"
    unfolding r by (simp add: resultObj_def)
  with fn vt show "output_file ext (options this) info (videoTitle r) = Inr (result_file r)"
    by simp
  from rs show "st_stats s = expected_stats ext (samples_observed False evs)"
    by (simp add: initial_state_def split: option.splits)
  from rs show "st_emitted s = map (\<lambda>p. \<lparr> IProgress.videoId = downloader.videoId this, progress = p \<rparr>)
                          (samples_observed False evs)"
    by (simp add: initial_state_def)
qed

lemma example_run:
  "downloadByInfo example_externals example_downloader example_info example_events
     = (\<lparr> st_stats = stats example_result,
          st_emitted =
            [\<lparr> IProgress.videoId = utf16 ''abc123'', progress = sample 40 400000 \<rparr>,
             \<lparr> IProgress.videoId = utf16 ''abc123'', progress = sample 100 1000000 \<rparr>],
          st_encoder =
            Some \<lparr> job_audioBitrate = Fin 128,
                   job_audioCodec = utf16 ''libmp3lame'',
                   job_format = utf16 ''mp3'',
                   job_outputOptions =
                     [JStr (utf16 ''-id3v2_version''), JStr (utf16 ''4''),
                      JStr (utf16 ''-metadata''), JStr (utf16 ''title=Cool Song''),
                      JStr (utf16 ''-metadata''), JStr (utf16 ''artist=Artist X'')],
                   job_file = utf16 ''/music/Artist X - Cool Song.mp3'' \<rparr> \<rparr>,
        Resolved example_result)"
  by (simp add: example_defs pipeline_defs string_consts)

lemma short_run:
  "snd (downloadByInfo example_externals example_downloader example_info short_events)
     = Resolved (example_result\<lparr> stats := None \<rparr>)"
  by (simp add: example_defs pipeline_defs string_consts)

lemma late_stream_error:
  "snd (downloadByInfo example_externals example_downloader silent_info
          [Response, StreamError (External (utf16 ''aborted''))])
     = Rejected (External (utf16 ''aborted''))"
  by (simp add: example_defs pipeline_defs string_consts after_throw_def)

text \<open>The walk to the parent directory, in terms of the entries on the way.\<close>

lemma walk_ok:
  "walk fs pre names = None \<longleftrightarrow> (\<forall>m\<le>length names. fs (pre @ take m names) = Some Dir)"
proof (induction names arbitrary: pre)
  case Nil
  show ?case
    by (auto simp: dir_error_def split: option.splits node.splits)
next
  case (Cons n names)
  have "(\<forall>m\<le>length (n # names). fs (pre @ take m (n # names)) = Some Dir)
        \<longleftrightarrow> fs pre = Some Dir \<and> (\<forall>m\<le>length names. fs ((pre @ [n]) @ take m names) = Some Dir)"
  proof
    assume a: "\<forall>m\<le>length (n # names). fs (pre @ take m (n # names)) = Some Dir"
    from a [rule_format, of 0] have "fs pre = Some Dir" by simp
    moreover have "\<forall>m\<le>length names. fs ((pre @ [n]) @ take m names) = Some Dir"
    proof (intro allI impI)
      fix m assume "m \<le> length names"
      with a [rule_format, of "Suc m"] show "fs ((pre @ [n]) @ take m names) = Some Dir"
        by simp
    qed
    ultimately show "fs pre = Some Dir \<and> (\<forall>m\<le>length names. fs ((pre @ [n]) @ take m names) = Some Dir)"
      by simp
  next
    assume b: "fs pre = Some Dir \<and> (\<forall>m\<le>length names. fs ((pre @ [n]) @ take m names) = Some Dir)"
    show "\<forall>m\<le>length (n # names). fs (pre @ take m (n # names)) = Some Dir"
    proof (intro allI impI)
      fix m assume m: "m \<le> length (n # names)"
      show "fs (pre @ take m (n # names)) = Some Dir"
      proof (cases m)
        case 0
        with b show ?thesis by simp
      next
        case (Suc k)
        with m b show ?thesis by simp
      qed
    qed
  qed
  then show ?case
    using Cons.IH [of "pre @ [n]"]
    by (auto simp: dir_error_def split: option.splits node.splits)
qed

lemma walk_first_error:
  "n \<le> length names \<Longrightarrow> \<forall>m<n. fs (pre @ take m names) = Some Dir \<Longrightarrow>
   dir_error (fs (pre @ take n names)) = Some e \<Longrightarrow> walk fs pre names = Some e"
proof (induction names arbitrary: pre n)
  case Nil
  then show ?case by simp
next
  case (Cons a names)
  show ?case
  proof (cases n)
    case 0
    with Cons.prems show ?thesis by simp
  next
    case (Suc k)
    from Cons.prems(2) [rule_format, of 0] Suc have root: "fs pre = Some Dir" by simp
    have k: "k \<le> length names" using Cons.prems(1) Suc by simp
    have dirs: "\<forall>m<k. fs ((pre @ [a]) @ take m names) = Some Dir"
    proof (intro allI impI)
      fix m assume "m < k"
      with Cons.prems(2) [rule_format, of "Suc m"] Suc
      show "fs ((pre @ [a]) @ take m names) = Some Dir" by simp
    qed
    have err: "dir_error (fs ((pre @ [a]) @ take k names)) = Some e"
      using Cons.prems(3) Suc by simp
    from Cons.IH [OF k dirs err] root show ?thesis
      by (simp add: dir_error_def)
  qed
qed

subsection \<open>C4: the audio bitrate\<close>

text \<open>
  C4. The bitrate given to the encoder is that of the first format with a truthy
  \<open>audioBitrate\<close> (\<open>bitrate_first\<close>, \<open>on_response_bitrate\<close>), and line 170 names
  \<open>DEFAULT_BITRATE\<close> for the other case. For a descriptor none of whose formats has an
  audio bitrate the code does not reach the default: the \<open>response\<close> listener raises a
  TypeError, no encoder is started and the run settles nothing.
\<close>

theorem audioBitrate_no_default:
  "resolve_audioBitrate silent_info = Inl TypeError
   \<and> downloadByInfo example_externals example_downloader silent_info example_events
       = (initial_state, Uncaught TypeError)
   \<and> resolve_audioBitrate example_info = Inr (Fin 128)"
  by (simp add: example_defs pipeline_defs string_consts)

subsection \<open>C5: the merged options\<close>

text \<open>
  C5, as the code has it. The resolved options are the defaults overlaid with the own
  properties of the caller's object. Every field that is not a property of the caller's
  object keeps its default (output directory the working directory, quality
  \<open>highestaudio\<close>, sampling interval 1000, \<open>allowWebm\<close> false); every field that is one
  takes the caller's value, also when that value is \<open>undefined\<close>.
\<close>

theorem resolve_options_overlay:
  "resolve_options cwd caller = DEFAULT_OPTIONS cwd ++ caller_fields caller
   \<and> (\<forall>k. k \<notin> dom (caller_fields caller) \<longrightarrow>
          get (resolve_options cwd caller) k = get (DEFAULT_OPTIONS cwd) k)
   \<and> (\<forall>k v. caller_fields caller k = Some v \<longrightarrow> get (resolve_options cwd caller) k = v)
   \<and> get (DEFAULT_OPTIONS cwd) OutputPath = JStr cwd
   \<and> get (DEFAULT_OPTIONS cwd) YoutubeVideoQuality = JStr (utf16 ''highestaudio'')
   \<and> get (DEFAULT_OPTIONS cwd) ProgressTimeout = JNum (Fin 1000)
   \<and> get (DEFAULT_OPTIONS cwd) AllowWebm = JBool False"
proof -
  have m: "resolve_options cwd caller = DEFAULT_OPTIONS cwd ++ caller_fields caller"
    by (simp add: resolve_options_def object_assign_def)
  have a: "\<forall>k. k \<notin> dom (caller_fields caller) \<longrightarrow>
          get (resolve_options cwd caller) k = get (DEFAULT_OPTIONS cwd) k"
    unfolding m by (simp add: get_def map_add_def domIff)
  have b: "\<forall>k v. caller_fields caller k = Some v \<longrightarrow> get (resolve_options cwd caller) k = v"
    unfolding m by (simp add: get_def map_add_def)
  have d: "get (DEFAULT_OPTIONS cwd) OutputPath = JStr cwd
   \<and> get (DEFAULT_OPTIONS cwd) YoutubeVideoQuality = JStr (utf16 ''highestaudio'')
   \<and> get (DEFAULT_OPTIONS cwd) ProgressTimeout = JNum (Fin 1000)
   \<and> get (DEFAULT_OPTIONS cwd) AllowWebm = JBool False"
    by (simp add: get_def DEFAULT_OPTIONS_def)
  from m a b d show ?thesis by blast
qed

text \<open>
  The theorem at an object with a file name and an \<open>undefined\<close> sampling interval: the
  directory keeps its default, the sampling interval does not.
\<close>

theorem resolve_options_overlay_witness:
  "OutputPath \<notin> dom (caller_fields
       (Some [FileName \<mapsto> JStr (utf16 ''song.mp3''), ProgressTimeout \<mapsto> JUndefined]))
   \<and> caller_fields
       (Some [FileName \<mapsto> JStr (utf16 ''song.mp3''), ProgressTimeout \<mapsto> JUndefined])
       ProgressTimeout = Some JUndefined
   \<and> get (resolve_options (utf16 ''/music'')
       (Some [FileName \<mapsto> JStr (utf16 ''song.mp3''), ProgressTimeout \<mapsto> JUndefined]))
       OutputPath = JStr (utf16 ''/music'')
   \<and> get (resolve_options (utf16 ''/music'')
       (Some [FileName \<mapsto> JStr (utf16 ''song.mp3''), ProgressTimeout \<mapsto> JUndefined]))
       ProgressTimeout = JUndefined"
proof -
  let ?caller = "Some [FileName \<mapsto> JStr (utf16 ''song.mp3''), ProgressTimeout \<mapsto> JUndefined]"
  note overlay = resolve_options_overlay [of "utf16 ''/music''" ?caller]
  have absent: "OutputPath \<notin> dom (caller_fields ?caller)"
    by (simp add: caller_fields_def)
  have present: "caller_fields ?caller ProgressTimeout = Some JUndefined"
    by (simp add: caller_fields_def)
  from overlay absent
  have "get (resolve_options (utf16 ''/music'') ?caller) OutputPath
        = get (DEFAULT_OPTIONS (utf16 ''/music'')) OutputPath"
    by blast
  with overlay have kept: "get (resolve_options (utf16 ''/music'') ?caller) OutputPath
                           = JStr (utf16 ''/music'')"
    by simp
  from overlay present
  have "get (resolve_options (utf16 ''/music'') ?caller) ProgressTimeout = JUndefined"
    by blast
  with absent present kept show ?thesis
    by blast
qed

text \<open>
  A caller who mentions the directory and the sampling interval with the value
  \<open>undefined\<close> gets \<open>undefined\<close> for both, not the defaults.
\<close>

theorem resolve_options_explicit_undefined:
  "get (resolve_options (utf16 ''/music'')
          (Some [OutputPath \<mapsto> JUndefined, ProgressTimeout \<mapsto> JUndefined])) OutputPath
     = JUndefined
   \<and> get (resolve_options (utf16 ''/music'')
          (Some [OutputPath \<mapsto> JUndefined, ProgressTimeout \<mapsto> JUndefined])) ProgressTimeout
     = JUndefined
   \<and> get (DEFAULT_OPTIONS (utf16 ''/music'')) OutputPath = JStr (utf16 ''/music'')
   \<and> get (DEFAULT_OPTIONS (utf16 ''/music'')) ProgressTimeout = JNum (Fin 1000)"
  by (simp add: resolve_options_def object_assign_def caller_fields_def get_def
      DEFAULT_OPTIONS_def)

subsection \<open>C6: the file name when the cleaned title sanitizes to nothing\<close>

text \<open>
  C6. When the options hold no file name (the field is absent, \<open>undefined\<close> or \<open>null\<close>)
  and the sanitized cleaned title is the empty string, the name is the descriptor's video
  id followed by \<open>.mp3\<close>, and the output file is that name joined to the directory.
\<close>

theorem output_name_falls_back_to_videoId:
  assumes "nullish (get opts FileName)" and "sanitizeFilename ext vt = []"
  shows "output_name ext opts info vt = JStr (videoDetails.videoId (videoDetails info) @ MP3)
         \<and> (\<forall>d. output_dir opts = JStr d \<longrightarrow>
               output_file ext opts info vt
                 = Inr (path_join ext d (videoDetails.videoId (videoDetails info) @ MP3)))"
  using assms by (simp add: output_name_def output_file_def default_name_def coalesce_def)

text \<open>The theorem at the default options and the title \<open>?/:\<close>, which cleaning empties.\<close>

theorem output_name_falls_back_to_videoId_witness:
  "nullish (get (options example_downloader) FileName)
   \<and> sanitizeFilename example_externals
        (cleanFileName (videoDetails.title (videoDetails untitled_info))) = []
   \<and> output_dir (options example_downloader) = JStr (utf16 ''/music'')
   \<and> output_file example_externals (options example_downloader) untitled_info
        (cleanFileName (videoDetails.title (videoDetails untitled_info)))
       = Inr (utf16 ''/music/abc123.mp3'')"
proof -
  have n: "nullish (get (options example_downloader) FileName)"
    by (simp add: example_defs nullish_def get_def resolve_options_def object_assign_def
        caller_fields_def DEFAULT_OPTIONS_def)
  have e: "sanitizeFilename example_externals
             (cleanFileName (videoDetails.title (videoDetails untitled_info))) = []"
    by (simp add: example_defs cleanFileName_def CHAR_REPLACES_def replace_all_def string_consts)
  have d: "output_dir (options example_downloader) = JStr (utf16 ''/music'')"
    by (simp add: example_defs output_dir_def coalesce_def nullish_def get_def
        resolve_options_def object_assign_def caller_fields_def DEFAULT_OPTIONS_def)
  from output_name_falls_back_to_videoId [OF n e, of untitled_info] d
  have "output_file example_externals (options example_downloader) untitled_info
          (cleanFileName (videoDetails.title (videoDetails untitled_info)))
        = Inr (path_join example_externals (utf16 ''/music'')
                 (videoDetails.videoId (videoDetails untitled_info) @ MP3))"
    by blast
  then have "output_file example_externals (options example_downloader) untitled_info
          (cleanFileName (videoDetails.title (videoDetails untitled_info)))
        = Inr (utf16 ''/music/abc123.mp3'')"
    by (simp add: example_defs string_consts)
  with n e d show ?thesis
    by blast
qed

subsection \<open>C7: the statistics of the result\<close>

text \<open>
  C7. For every run that resolves, the \<open>stats\<close> of the result are present if and only if
  one of the progress samples delivered during the run (the \<open>Progress\<close> events after the
  \<open>response\<close> and before the encoder's \<open>end\<close>) had percentage exactly 100. They are then
  the transferred bytes, runtime and rounded speed of the last such sample, and
  \<open>undefined\<close> when no such sample arrived. The progress events emitted to the subscriber
  are these samples, in order.
\<close>

theorem stats_iff_full_sample:
  assumes "snd (downloadByInfo ext this info evs) = Resolved r"
  shows "(stats r \<noteq> None \<longleftrightarrow> (\<exists>p\<in>set (samples_observed False evs). percentage p = Fin 100))
         \<and> stats r = expected_stats ext (samples_observed False evs)
         \<and> st_emitted (fst (downloadByInfo ext this info evs))
             = map (\<lambda>p. \<lparr> IProgress.videoId = downloader.videoId this, progress = p \<rparr>)
                 (samples_observed False evs)
         \<and> (\<forall>p\<in>set (samples_observed False evs). Progress p \<in> set evs)"
proof -
  have run: "downloadByInfo ext this info evs
             = (fst (downloadByInfo ext this info evs), Resolved r)"
    using assms by (simp add: prod_eq_iff)
  have st: "stats r = expected_stats ext (samples_observed False evs)"
    using downloadByInfo_resolved(1) [OF run] downloadByInfo_resolved(6) [OF run] by simp
  have "stats r \<noteq> None \<longleftrightarrow> (\<exists>p\<in>set (samples_observed False evs). percentage p = Fin 100)"
    unfolding st by (rule expected_stats_present)
  moreover have "\<forall>p\<in>set (samples_observed False evs). Progress p \<in> set evs"
    using samples_observed_events by blast
  ultimately show ?thesis
    using st downloadByInfo_resolved(7) [OF run] by blast
qed

text \<open>
  The theorem at a run with samples at 40 and 100, where the statistics are those of the
  last sample, and at a run that ends after the sample at 40, where they are absent.
\<close>

theorem stats_iff_full_sample_witness:
  "snd (downloadByInfo example_externals example_downloader example_info example_events)
     = Resolved example_result
   \<and> samples_observed False example_events = [sample 40 400000, sample 100 1000000]
   \<and> stats example_result
       = Some \<lparr> transferredBytes = Fin 1000000, runtime = Fin 12, averageSpeed = Fin 83333 \<rparr>
   \<and> expected_stats example_externals (samples_observed False example_events)
       = Some \<lparr> transferredBytes = Fin 1000000, runtime = Fin 12, averageSpeed = Fin 83333 \<rparr>
   \<and> snd (downloadByInfo example_externals example_downloader example_info short_events)
       = Resolved (example_result\<lparr> stats := None \<rparr>)
   \<and> samples_observed False short_events = [sample 40 400000]
   \<and> \<not> (\<exists>p\<in>set (samples_observed False short_events). percentage p = Fin 100)"
proof -
  have full: "snd (downloadByInfo example_externals example_downloader example_info
                     example_events) = Resolved example_result"
    by (simp add: example_run)
  have short: "snd (downloadByInfo example_externals example_downloader example_info
                      short_events) = Resolved (example_result\<lparr> stats := None \<rparr>)"
    by (rule short_run)
  have some: "stats example_result
       = Some \<lparr> transferredBytes = Fin 1000000, runtime = Fin 12, averageSpeed = Fin 83333 \<rparr>"
    by (simp add: example_result_def)
  have o1: "samples_observed False example_events = [sample 40 400000, sample 100 1000000]"
    by (simp add: example_events_def)
  have o2: "samples_observed False short_events = [sample 40 400000]"
    by (simp add: short_events_def)
  from stats_iff_full_sample [OF full] some
  have a: "expected_stats example_externals (samples_observed False example_events)
       = Some \<lparr> transferredBytes = Fin 1000000, runtime = Fin 12, averageSpeed = Fin 83333 \<rparr>"
    by simp
  from stats_iff_full_sample [OF short]
  have b: "\<not> (\<exists>p\<in>set (samples_observed False short_events). percentage p = Fin 100)"
    by simp
  from full short some o1 o2 a b show ?thesis
    by blast
qed

subsection \<open>C8: ensuring the output directory\<close>

text \<open>
  C8, as the code has it. When the output path leads to an existing directory (or file),
  \<open>_ensureDir\<close> succeeds and changes nothing. When the parent directory exists and the
  path names nothing, the one directory is created. When an entry on the way to the
  parent is missing, the call raises \<open>ENOENT\<close>, and when such an entry is a regular file it
  raises \<open>ENOTDIR\<close>: the directory is created one level deep only.
\<close>

theorem ensureDir_single_level:
  assumes "coalesce (get opts OutputPath) (JStr []) = JStr d" and "resolve d = Some p"
  shows "((\<forall>m\<le>length (butlast p). fs (take m (butlast p)) = Some Dir)
            \<and> (fs p = Some Dir \<or> fs p = Some File) \<longrightarrow>
          ensureDir resolve fs opts = Inr fs)
         \<and> ((\<forall>m\<le>length (butlast p). fs (take m (butlast p)) = Some Dir) \<and> fs p = None \<longrightarrow>
               ensureDir resolve fs opts = Inr (fs(p \<mapsto> Dir)))
         \<and> (\<forall>n\<le>length (butlast p).
               (\<forall>m<n. fs (take m (butlast p)) = Some Dir) \<and> fs (take n (butlast p)) = None \<longrightarrow>
               ensureDir resolve fs opts = Inl ENOENT)
         \<and> (\<forall>n\<le>length (butlast p).
               (\<forall>m<n. fs (take m (butlast p)) = Some Dir) \<and> fs (take n (butlast p)) = Some File \<longrightarrow>
               ensureDir resolve fs opts = Inl ENOTDIR)"
proof -
  have e: "ensureDir resolve fs opts =
           (if walk fs [] (butlast p) = None \<and> (fs p = Some Dir \<or> fs p = Some File) then Inr fs
            else case walk fs [] (butlast p) of
                   Some e \<Rightarrow> Inl e
                 | None \<Rightarrow> if fs p \<noteq> None then Inl EEXIST else Inr (fs(p \<mapsto> Dir)))"
    using assms by (simp add: ensureDir_def existsSync_def mkdirSync_def Let_def)
  have ok: "walk fs [] (butlast p) = None
            \<longleftrightarrow> (\<forall>m\<le>length (butlast p). fs (take m (butlast p)) = Some Dir)"
    using walk_ok [of fs "[]" "butlast p"] by simp
  have c1: "(\<forall>m\<le>length (butlast p). fs (take m (butlast p)) = Some Dir)
            \<and> (fs p = Some Dir \<or> fs p = Some File) \<longrightarrow> ensureDir resolve fs opts = Inr fs"
    unfolding e ok [symmetric] by simp
  have c2: "(\<forall>m\<le>length (butlast p). fs (take m (butlast p)) = Some Dir) \<and> fs p = None \<longrightarrow>
               ensureDir resolve fs opts = Inr (fs(p \<mapsto> Dir))"
    unfolding e ok [symmetric] by simp
  have c3: "\<forall>n\<le>length (butlast p).
               (\<forall>m<n. fs (take m (butlast p)) = Some Dir) \<and> fs (take n (butlast p)) = None \<longrightarrow>
               ensureDir resolve fs opts = Inl ENOENT"
  proof (intro allI impI)
    fix n assume n: "n \<le> length (butlast p)"
      and h: "(\<forall>m<n. fs (take m (butlast p)) = Some Dir) \<and> fs (take n (butlast p)) = None"
    have "walk fs [] (butlast p) = Some ENOENT"
      using walk_first_error [of n "butlast p" fs "[]" ENOENT] n h
      by (simp add: dir_error_def)
    then show "ensureDir resolve fs opts = Inl ENOENT"
      unfolding e by simp
  qed
  have c4: "\<forall>n\<le>length (butlast p).
               (\<forall>m<n. fs (take m (butlast p)) = Some Dir) \<and> fs (take n (butlast p)) = Some File \<longrightarrow>
               ensureDir resolve fs opts = Inl ENOTDIR"
  proof (intro allI impI)
    fix n assume n: "n \<le> length (butlast p)"
      and h: "(\<forall>m<n. fs (take m (butlast p)) = Some Dir) \<and> fs (take n (butlast p)) = Some File"
    have "walk fs [] (butlast p) = Some ENOTDIR"
      using walk_first_error [of n "butlast p" fs "[]" ENOTDIR] n h
      by (simp add: dir_error_def)
    then show "ensureDir resolve fs opts = Inl ENOTDIR"
      unfolding e by simp
  qed
  from c1 c2 c3 c4 show ?thesis by blast
qed

text \<open>
  The theorem on the example file system: \<open>/music\<close> is left as it is, \<open>/music/mp3\<close> is
  created, \<open>/media/mp3\<close> fails for the missing \<open>/media\<close>, and \<open>/notes/a/b\<close> fails
  because \<open>/notes\<close> is a file.
\<close>

theorem ensureDir_single_level_witness:
  "ensureDir simple_resolve example_fs [OutputPath \<mapsto> JStr (utf16 ''/music'')]
     = Inr example_fs
   \<and> ensureDir simple_resolve example_fs [OutputPath \<mapsto> JStr (utf16 ''/music/mp3'')]
       = Inr (example_fs([utf16 ''music'', utf16 ''mp3''] \<mapsto> Dir))
   \<and> ensureDir simple_resolve example_fs [OutputPath \<mapsto> JStr (utf16 ''/media/mp3'')]
       = Inl ENOENT
   \<and> ensureDir simple_resolve example_fs [OutputPath \<mapsto> JStr (utf16 ''/notes/a/b'')]
       = Inl ENOTDIR"
proof -
  have d1: "coalesce (get [OutputPath \<mapsto> JStr (utf16 ''/music'')] OutputPath) (JStr [])
            = JStr (utf16 ''/music'')"
    by (simp add: coalesce_def nullish_def get_def)
  have p1: "simple_resolve (utf16 ''/music'') = Some [utf16 ''music'']"
    by (simp add: simple_resolve_def string_consts)
  have h1: "(\<forall>m\<le>length (butlast [utf16 ''music'']).
               example_fs (take m (butlast [utf16 ''music''])) = Some Dir)
            \<and> (example_fs [utf16 ''music''] = Some Dir \<or> example_fs [utf16 ''music''] = Some File)"
    by (simp add: example_fs_def string_consts)
  from ensureDir_single_level [where resolve = simple_resolve and fs = example_fs, OF d1 p1] h1
  have r1: "ensureDir simple_resolve example_fs [OutputPath \<mapsto> JStr (utf16 ''/music'')]
            = Inr example_fs"
    by blast
  have d2: "coalesce (get [OutputPath \<mapsto> JStr (utf16 ''/music/mp3'')] OutputPath) (JStr [])
            = JStr (utf16 ''/music/mp3'')"
    by (simp add: coalesce_def nullish_def get_def)
  have p2: "simple_resolve (utf16 ''/music/mp3'') = Some [utf16 ''music'', utf16 ''mp3'']"
    by (simp add: simple_resolve_def string_consts)
  have h2: "(\<forall>m\<le>length (butlast [utf16 ''music'', utf16 ''mp3'']).
               example_fs (take m (butlast [utf16 ''music'', utf16 ''mp3''])) = Some Dir)
            \<and> example_fs [utf16 ''music'', utf16 ''mp3''] = None"
    by (auto simp: le_Suc_eq example_fs_def string_consts)
  from ensureDir_single_level [where resolve = simple_resolve and fs = example_fs, OF d2 p2] h2
  have r2: "ensureDir simple_resolve example_fs [OutputPath \<mapsto> JStr (utf16 ''/music/mp3'')]
            = Inr (example_fs([utf16 ''music'', utf16 ''mp3''] \<mapsto> Dir))"
    by blast
  have d3: "coalesce (get [OutputPath \<mapsto> JStr (utf16 ''/media/mp3'')] OutputPath) (JStr [])
            = JStr (utf16 ''/media/mp3'')"
    by (simp add: coalesce_def nullish_def get_def)
  have p3: "simple_resolve (utf16 ''/media/mp3'') = Some [utf16 ''media'', utf16 ''mp3'']"
    by (simp add: simple_resolve_def string_consts)
  have h3: "1 \<le> length (butlast [utf16 ''media'', utf16 ''mp3''])
            \<and> (\<forall>m<1. example_fs (take m (butlast [utf16 ''media'', utf16 ''mp3''])) = Some Dir)
            \<and> example_fs (take 1 (butlast [utf16 ''media'', utf16 ''mp3''])) = None"
    by (simp add: example_fs_def string_consts)
  from ensureDir_single_level [where resolve = simple_resolve and fs = example_fs, OF d3 p3] h3
  have r3: "ensureDir simple_resolve example_fs [OutputPath \<mapsto> JStr (utf16 ''/media/mp3'')]
            = Inl ENOENT"
    by blast
  have d4: "coalesce (get [OutputPath \<mapsto> JStr (utf16 ''/notes/a/b'')] OutputPath) (JStr [])
            = JStr (utf16 ''/notes/a/b'')"
    by (simp add: coalesce_def nullish_def get_def)
  have p4: "simple_resolve (utf16 ''/notes/a/b'') = Some [utf16 ''notes'', utf16 ''a'', utf16 ''b'']"
    by (simp add: simple_resolve_def string_consts)
  have h4: "1 \<le> length (butlast [utf16 ''notes'', utf16 ''a'', utf16 ''b''])
            \<and> (\<forall>m<1. example_fs (take m (butlast [utf16 ''notes'', utf16 ''a'', utf16 ''b''])) = Some Dir)
            \<and> example_fs (take 1 (butlast [utf16 ''notes'', utf16 ''a'', utf16 ''b''])) = Some File"
    by (simp add: example_fs_def string_consts)
  from ensureDir_single_level [where resolve = simple_resolve and fs = example_fs, OF d4 p4] h4
  have r4: "ensureDir simple_resolve example_fs [OutputPath \<mapsto> JStr (utf16 ''/notes/a/b'')]
            = Inl ENOTDIR"
    by blast
  from r1 r2 r3 r4 show ?thesis
    by blast
qed

text \<open>
  On a file system with the root only, the directory \<open>/music/mp3\<close> is not created: the
  intermediate \<open>/music\<close> is missing and the call raises.
\<close>

theorem ensureDir_missing_parent:
  "ensureDir simple_resolve [[] \<mapsto> Dir] [OutputPath \<mapsto> JStr (utf16 ''/music/mp3'')]
     = Inl ENOENT"
  by (simp add: ensureDir_def existsSync_def mkdirSync_def coalesce_def nullish_def get_def
      simple_resolve_def dir_error_def string_consts)

subsection \<open>C9: an explicit file name\<close>

text \<open>
  C9. When the options hold a file name, that string is the second argument of
  \<open>path.join\<close> as it is: the output file is the join of the directory and the string,
  whatever the sanitizer, the descriptor and the title are, so no sanitizing, no video id
  and no \<open>.mp3\<close> enter it.
\<close>

theorem explicit_fileName_verbatim:
  assumes "get opts FileName = JStr f"
  shows "output_name ext opts info vt = JStr f
         \<and> (\<forall>d. output_dir opts = JStr d \<longrightarrow>
               output_file ext opts info vt = Inr (path_join ext d f))
         \<and> (\<forall>g info' vt'. output_file (ext\<lparr>sanitizeFilename := g\<rparr>) opts info' vt'
                            = output_file ext opts info vt)"
  using assms
  by (simp add: output_name_def output_file_def coalesce_def nullish_def split: jsval.splits)

text \<open>The theorem at the file name \<open>my:song\<close>, which has a colon and no extension.\<close>

theorem explicit_fileName_verbatim_witness:
  "get (resolve_options (utf16 ''/music'') (Some [FileName \<mapsto> JStr (utf16 ''my:song'')]))
       FileName = JStr (utf16 ''my:song'')
   \<and> output_dir (resolve_options (utf16 ''/music'') (Some [FileName \<mapsto> JStr (utf16 ''my:song'')]))
       = JStr (utf16 ''/music'')
   \<and> output_file example_externals
        (resolve_options (utf16 ''/music'') (Some [FileName \<mapsto> JStr (utf16 ''my:song'')]))
        example_info (cleanFileName (videoDetails.title (videoDetails example_info)))
       = Inr (utf16 ''/music/my:song'')"
proof -
  let ?opts = "resolve_options (utf16 ''/music'') (Some [FileName \<mapsto> JStr (utf16 ''my:song'')])"
  have f: "get ?opts FileName = JStr (utf16 ''my:song'')"
    by (simp add: get_def resolve_options_def object_assign_def caller_fields_def)
  have d: "output_dir ?opts = JStr (utf16 ''/music'')"
    by (simp add: output_dir_def coalesce_def nullish_def get_def resolve_options_def
        object_assign_def caller_fields_def DEFAULT_OPTIONS_def)
  from explicit_fileName_verbatim [OF f, of example_externals example_info
      "cleanFileName (videoDetails.title (videoDetails example_info))"] d
  have "output_file example_externals ?opts example_info
          (cleanFileName (videoDetails.title (videoDetails example_info)))
        = Inr (path_join example_externals (utf16 ''/music'') (utf16 ''my:song''))"
    by blast
  then have "output_file example_externals ?opts example_info
          (cleanFileName (videoDetails.title (videoDetails example_info)))
        = Inr (utf16 ''/music/my:song'')"
    by (simp add: example_externals_def string_consts)
  with f d show ?thesis
    by blast
qed

subsection \<open>C10: the thumbnail\<close>

text \<open>
  C10. For a descriptor whose \<open>thumbnails\<close> is a non-empty array the thumbnail is the url
  of its first entry. For one whose \<open>thumbnails\<close> is the empty array the derivation raises
  a TypeError, and \<open>_downloadByInfo\<close> rejects with it before any stream is opened.
\<close>

theorem thumbnail_of_not_total:
  "(thumbnails vd = Some (t # ts) \<longrightarrow> thumbnail_of vd = Inr (Some (url t)))
   \<and> (thumbnails vd = Some [] \<longrightarrow> thumbnail_of vd = Inl TypeError)
   \<and> (thumbnails (videoDetails info) = Some [] \<longrightarrow>
        snd (downloadByInfo ext this info evs) = Rejected TypeError)"
  by (simp add: thumbnail_of_def downloadByInfo_def)

text \<open>The theorem at the example descriptor and at the same descriptor with no entries.\<close>

theorem thumbnail_of_not_total_witness:
  "thumbnails (videoDetails example_info)
     = Some [\<lparr> url = utf16 ''https://i.ytimg.com/vi/abc123/default.jpg'' \<rparr>]
   \<and> thumbnail_of (videoDetails example_info)
       = Inr (Some (utf16 ''https://i.ytimg.com/vi/abc123/default.jpg''))
   \<and> thumbnails ((videoDetails example_info)\<lparr> thumbnails := Some [] \<rparr>) = Some []
   \<and> thumbnail_of ((videoDetails example_info)\<lparr> thumbnails := Some [] \<rparr>) = Inl TypeError
   \<and> snd (downloadByInfo example_externals example_downloader
            (example_info\<lparr> videoDetails := (videoDetails example_info)\<lparr> thumbnails := Some [] \<rparr> \<rparr>)
            example_events) = Rejected TypeError"
proof -
  have one: "thumbnails (videoDetails example_info)
     = Some [\<lparr> url = utf16 ''https://i.ytimg.com/vi/abc123/default.jpg'' \<rparr>]"
    by (simp add: example_info_def)
  have none: "thumbnails ((videoDetails example_info)\<lparr> thumbnails := Some [] \<rparr>) = Some []"
    by simp
  have none': "thumbnails (videoDetails
      (example_info\<lparr> videoDetails := (videoDetails example_info)\<lparr> thumbnails := Some [] \<rparr> \<rparr>))
      = Some []"
    by simp
  from thumbnail_of_not_total [of "videoDetails example_info"
      "\<lparr> url = utf16 ''https://i.ytimg.com/vi/abc123/default.jpg'' \<rparr>" "[]"] one
  have a: "thumbnail_of (videoDetails example_info)
       = Inr (Some (utf16 ''https://i.ytimg.com/vi/abc123/default.jpg''))"
    by simp
  from thumbnail_of_not_total [of "(videoDetails example_info)\<lparr> thumbnails := Some [] \<rparr>"
      _ _ "example_info\<lparr> videoDetails := (videoDetails example_info)\<lparr> thumbnails := Some [] \<rparr> \<rparr>"
      example_externals example_downloader example_events] none none'
  have b: "thumbnail_of ((videoDetails example_info)\<lparr> thumbnails := Some [] \<rparr>) = Inl TypeError
           \<and> snd (downloadByInfo example_externals example_downloader
            (example_info\<lparr> videoDetails := (videoDetails example_info)\<lparr> thumbnails := Some [] \<rparr> \<rparr>)
            example_events) = Rejected TypeError"
    by blast
  from one none a b show ?thesis
    by blast
qed

end
